theory Spec2Isabelle
  imports Complex_Main
begin

section \<open>Values shared by the ingestion and the join\<close>

text \<open>
  A Python float is represented by the rational number it denotes; the code only copies
  floats and compares them for equality, and never computes with them. A nullable column
  is an \<open>option\<close>: \<open>None\<close> is SQL NULL, JSON null, or the NaN that pandas stores for a
  missing value. pandas' merge matches a null key with a null key, which is equality on
  \<open>option\<close>.
\<close>

type_synonym pyfloat = rat

record datetime =
  year :: nat
  month :: nat
  day :: nat
  hour :: nat
  minute :: nat
  second :: nat
  nanosecond :: nat

text \<open>
  A cell of a timestamp column: a \<open>str\<close> (a column read from a CSV file, or a text
  column of the database) or a parsed, timezone-naive \<open>Timestamp\<close>. A text is
  represented by the timestamp that \<open>pd.to_datetime\<close> reads from it; a text that
  \<open>pd.to_datetime\<close> cannot read, for which it raises, and a null cell are outside the
  type.
\<close>

datatype time_cell =
  TimeText datetime
  | TimeStamp datetime

fun stamp_of :: "time_cell \<Rightarrow> datetime" where
  "stamp_of (TimeText t) = t"
| "stamp_of (TimeStamp t) = t"

text \<open>\<open>pd.to_datetime\<close> on one cell: the result is a \<open>Timestamp\<close>.\<close>

definition to_datetime :: "time_cell \<Rightarrow> time_cell" where
  "to_datetime c = TimeStamp (stamp_of c)"

text \<open>\<open>Series.dt.floor("h")\<close>: the start of the hour that contains the timestamp.\<close>

definition floor_h :: "datetime \<Rightarrow> datetime" where
  "floor_h t = t\<lparr>minute := 0, second := 0, nanosecond := 0\<rparr>"

text \<open>
  A cell of an \<open>id\<close> column of \<open>merged_weather\<close> and of the fact table. The catalog's
  ids are integers (\<open>int64\<close>). A merge that fills a missing value into the column turns it
  into a \<open>float64\<close> column: the missing cells hold NaN and every id is converted to the
  nearest double, the one with the even significand when two are as near.
\<close>

datatype id_cell =
  IntId int
  | FloatId pyfloat
  | NaN

text \<open>
  The double nearest to an integer. \<open>significand_unit a\<close> is the power of two that the
  last of the 53 bits of the significand stands at; it is 1 for \<open>a\<close> below
  9007199254740992, the 53rd power of 2, where every integer is a double. The integer is
  rounded to a multiple of it, to the even one of two that are as near.
\<close>

function significand_unit :: "int \<Rightarrow> int" where
  "significand_unit a = (if a < 9007199254740992 then 1 else 2 * significand_unit (a div 2))"
  by pat_completeness auto
termination
  by (relation "measure nat") auto

declare significand_unit.simps [simp del]

definition round_half_even :: "int \<Rightarrow> int \<Rightarrow> int" where
  "round_half_even a d =
     (let q = a div d; r = a mod d
      in if 2 * r < d then q else if d < 2 * r then q + 1 else if even q then q else q + 1)"

definition float64_of_int :: "int \<Rightarrow> pyfloat" where
  "float64_of_int n =
     (let a = \<bar>n\<bar>; d = significand_unit a
      in of_int (sgn n * (round_half_even a d * d)))"

fun upcast_id :: "id_cell \<Rightarrow> id_cell" where
  "upcast_id (IntId i) = FloatId (float64_of_int i)"
| "upcast_id (FloatId x) = FloatId x"
| "upcast_id NaN = NaN"

subsection \<open>Text normalisation\<close>

text \<open>
  A string is the list of its code points, and a \<open>char\<close> is a code point below 256; a
  name with a code point from 256 on is outside the type. On these strings \<open>str.strip()\<close>
  removes the leading and the trailing white space, which is the code points 9 to 13, 28
  to 32, 133 and 160, and \<open>str.lower()\<close> maps each character on its own: the letters 65
  to 90 (\<open>A\<close> to \<open>Z\<close>) and 192 to 222 without 215 (the capital letters of Latin-1) to
  the code point 32 above, every other character to itself.
\<close>

definition is_space :: "char \<Rightarrow> bool" where
  "is_space c =
     (let n = (of_char c :: nat)
      in (9 \<le> n \<and> n \<le> 13) \<or> (28 \<le> n \<and> n \<le> 32) \<or> n = 133 \<or> n = 160)"

definition lower_char :: "char \<Rightarrow> char" where
  "lower_char c =
     (let n = (of_char c :: nat)
      in if (65 \<le> n \<and> n \<le> 90) \<or> (192 \<le> n \<and> n \<le> 222 \<and> n \<noteq> 215) then char_of (n + 32)
         else c)"

definition strip :: "string \<Rightarrow> string" where
  "strip s = rev (dropWhile is_space (rev (dropWhile is_space s)))"

definition lower :: "string \<Rightarrow> string" where
  "lower s = map lower_char s"

text \<open>The chain \<open>.str.strip().str.lower()\<close> of lines 97, 98 and 110.\<close>

definition normalize :: "string \<Rightarrow> string" where
  "normalize s = lower (strip s)"

section \<open>The fact join (build\_fact\_shipments\_weather.py)\<close>

subsection \<open>Tables\<close>

text \<open>
  A data frame is the list of its rows, in order; a row is a record of the columns the
  join reads. The two columns that \<open>preprocess_and_join\<close> adds to the shipments frame
  (\<open>hourly_timestamp\<close> and \<open>city\<close>) are optional fields, \<open>None\<close> while the frame does
  not have the column.
\<close>

record shipment_row =
  s_id :: int
  s_start_location :: string
  s_shipment_start_timestamp :: time_cell
  s_consumed_fuel :: pyfloat
  s_hourly_timestamp :: "datetime option"
  s_city :: "string option"

record city_row =
  c_id :: int
  c_name :: string
  c_latitude :: "pyfloat option"
  c_longitude :: "pyfloat option"

record weather_row =
  w_city :: string
  w_latitude :: "pyfloat option"
  w_longitude :: "pyfloat option"
  w_timestamp :: time_cell
  w_temperature_2m :: "pyfloat option"
  w_windspeed_10m :: "pyfloat option"
  w_precipitation :: "pyfloat option"
  w_weathercode :: "int option"

text \<open>
  A row of \<open>merged_weather\<close>: the weather columns, then the catalog's \<open>id\<close> and \<open>name\<close>
  (null where the left join found no city), then the \<open>hourly_timestamp\<close> of line 113.
\<close>

record merged_row =
  m_city :: string
  m_latitude :: "pyfloat option"
  m_longitude :: "pyfloat option"
  m_timestamp :: time_cell
  m_temperature_2m :: "pyfloat option"
  m_windspeed_10m :: "pyfloat option"
  m_precipitation :: "pyfloat option"
  m_weathercode :: "int option"
  m_id :: id_cell
  m_name :: "string option"
  m_hourly_timestamp :: "datetime option"

record fact_record =
  shipment_id :: int
  city_id :: id_cell
  timestamp :: datetime
  fuel_consumed_liters :: pyfloat
  temperature_2m :: "pyfloat option"
  windspeed_10m :: "pyfloat option"
  precipitation :: "pyfloat option"
  weathercode :: "int option"

datatype join_message =
  WarnEmptyInput
  | WarnNoMatch
  | InfoShape nat nat

subsection \<open>pandas merge\<close>

text \<open>
  \<open>pd.merge(weather_df, cities_df, how="left", left_on=[city, latitude, longitude],
  right_on=[name, latitude, longitude])\<close>: every weather row, in order, once for each
  city row with equal keys, and once with null city columns when there is none. When a
  row has no city, the \<open>id\<close> column of the result is a \<open>float64\<close> column. The rows of
  both merges are in the order pandas documents for the kind of join, that of the left
  frame's keys.
\<close>

definition city_matches :: "weather_row \<Rightarrow> city_row \<Rightarrow> bool" where
  "city_matches w c \<longleftrightarrow>
     w_city w = c_name c \<and> w_latitude w = c_latitude c \<and> w_longitude w = c_longitude c"

definition merged :: "weather_row \<Rightarrow> city_row option \<Rightarrow> merged_row" where
  "merged w co =
     \<lparr>m_city = w_city w, m_latitude = w_latitude w, m_longitude = w_longitude w,
      m_timestamp = w_timestamp w, m_temperature_2m = w_temperature_2m w,
      m_windspeed_10m = w_windspeed_10m w, m_precipitation = w_precipitation w,
      m_weathercode = w_weathercode w,
      m_id = (case co of None \<Rightarrow> NaN | Some c \<Rightarrow> IntId (c_id c)),
      m_name = map_option c_name co,
      m_hourly_timestamp = None\<rparr>"

definition left_rows :: "city_row list \<Rightarrow> weather_row \<Rightarrow> merged_row list" where
  "left_rows cs w =
     (case filter (city_matches w) cs of
        [] \<Rightarrow> [merged w None]
      | ms \<Rightarrow> map (\<lambda>c. merged w (Some c)) ms)"

definition merge_left :: "weather_row list \<Rightarrow> city_row list \<Rightarrow> merged_row list" where
  "merge_left ws cs =
     (let rows = concat (map (left_rows cs) ws)
      in if list_ex (\<lambda>m. m_id m = NaN) rows
         then map (\<lambda>m. m\<lparr>m_id := upcast_id (m_id m)\<rparr>) rows
         else rows)"

text \<open>
  \<open>pd.merge(shipments_df, merged_weather, how="inner", on=[city, hourly_timestamp])\<close>:
  every shipment row, in order, once for each row of \<open>merged_weather\<close> with equal keys.
  The \<open>id\<close> columns of the two sides become \<open>id_x\<close> and \<open>id_y\<close>, each with the type it
  had.
\<close>

definition key_matches :: "shipment_row \<Rightarrow> merged_row \<Rightarrow> bool" where
  "key_matches s m \<longleftrightarrow>
     s_city s = Some (m_city m) \<and> s_hourly_timestamp s = m_hourly_timestamp m"

definition inner_rows :: "merged_row list \<Rightarrow> shipment_row \<Rightarrow> (shipment_row \<times> merged_row) list" where
  "inner_rows ms s = map (Pair s) (filter (key_matches s) ms)"

definition merge_inner :: "shipment_row list \<Rightarrow> merged_row list \<Rightarrow> (shipment_row \<times> merged_row) list" where
  "merge_inner ss ms = concat (map (inner_rows ms) ss)"

text \<open>
  The projection and renaming of lines 126 to 140. The timestamp column of \<open>fact_df\<close>
  holds the \<open>Timestamp\<close> cells that line 108 wrote.
\<close>

definition project :: "shipment_row \<times> merged_row \<Rightarrow> fact_record" where
  "project p =
     (case p of (s, m) \<Rightarrow>
        \<lparr>shipment_id = s_id s, city_id = m_id m,
         timestamp = stamp_of (s_shipment_start_timestamp s),
         fuel_consumed_liters = s_consumed_fuel s,
         temperature_2m = m_temperature_2m m, windspeed_10m = m_windspeed_10m m,
         precipitation = m_precipitation m, weathercode = m_weathercode m\<rparr>)"

subsection \<open>preprocess\_and\_join\<close>

text \<open>
  The function assigns to columns of the frames it is given, so the model returns, with
  the fact table, the three frames as they are when the function returns, and the
  messages it logged.
\<close>

record join_outcome =
  result :: "fact_record list"
  shipments_after :: "shipment_row list"
  cities_after :: "city_row list"
  weather_after :: "weather_row list"
  messages :: "join_message list"

text \<open>Lines 97 and 98, on one row of the cities frame and of the weather frame.\<close>

definition normalize_city :: "city_row \<Rightarrow> city_row" where
  "normalize_city c = c\<lparr>c_name := normalize (c_name c)\<rparr>"

definition normalize_weather :: "weather_row \<Rightarrow> weather_row" where
  "normalize_weather w = w\<lparr>w_city := normalize (w_city w)\<rparr>"

text \<open>
  Lines 108 to 110, on one row of the shipments frame: the timestamp cell is replaced by
  its \<open>Timestamp\<close>, and the two key columns are added.
\<close>

definition key_shipment :: "shipment_row \<Rightarrow> shipment_row" where
  "key_shipment s =
     (let s1 = s\<lparr>s_shipment_start_timestamp := to_datetime (s_shipment_start_timestamp s)\<rparr>;
          s2 = s1\<lparr>s_hourly_timestamp :=
                    Some (floor_h (stamp_of (s_shipment_start_timestamp s1)))\<rparr>
      in s2\<lparr>s_city := Some (normalize (s_start_location s2))\<rparr>)"

text \<open>Lines 112 and 113, on one row of \<open>merged_weather\<close>.\<close>

definition key_weather :: "merged_row \<Rightarrow> merged_row" where
  "key_weather m =
     (let m1 = m\<lparr>m_timestamp := to_datetime (m_timestamp m)\<rparr>
      in m1\<lparr>m_hourly_timestamp := Some (floor_h (stamp_of (m_timestamp m1)))\<rparr>)"

definition preprocess_and_join ::
  "shipment_row list \<Rightarrow> city_row list \<Rightarrow> weather_row list \<Rightarrow> join_outcome" where
  "preprocess_and_join shipments_df cities_df weather_df =
     (if shipments_df = [] \<or> cities_df = [] \<or> weather_df = [] then
        \<lparr>result = [], shipments_after = shipments_df, cities_after = cities_df,
         weather_after = weather_df, messages = [WarnEmptyInput]\<rparr>
      else
        let cities1 = map normalize_city cities_df;
            weather1 = map normalize_weather weather_df;
            merged_weather = merge_left weather1 cities1;
            shipments1 = map key_shipment shipments_df;
            merged_weather1 = map key_weather merged_weather;
            fact_df = merge_inner shipments1 merged_weather1
        in if fact_df = [] then
             \<lparr>result = [], shipments_after = shipments1, cities_after = cities1,
              weather_after = weather1, messages = [WarnNoMatch]\<rparr>
           else
             \<lparr>result = map project fact_df, shipments_after = shipments1,
              cities_after = cities1, weather_after = weather1,
              messages = [InfoShape (length fact_df) 8]\<rparr>)"

section \<open>The weather fetch (weather\_fetch.py)\<close>

subsection \<open>Decoded JSON and the Python operations on it\<close>

text \<open>
  The value \<open>response.json()\<close> returns. An object is the decoded dict, as the list of
  its items; its keys are distinct, and a lookup takes the first binding of a key.
\<close>

datatype json =
  JNull
  | JBool bool
  | JNum rat
  | JStr string
  | JArr "json list"
  | JObj "(string \<times> json) list"

text \<open>The exceptions an attempt can raise; all of them are subclasses of \<open>Exception\<close>.\<close>

datatype py_error =
  RequestException
  | HTTPError nat
  | JSONDecodeError
  | AttributeError
  | TypeError
  | IndexError
  | KeyError
  | ValueError

text \<open>\<open>x.get(k, d)\<close>: only a dict has the method.\<close>

fun dict_get :: "json \<Rightarrow> string \<Rightarrow> json \<Rightarrow> py_error + json" where
  "dict_get (JObj kvs) k d = Inr (case map_of kvs k of Some v \<Rightarrow> v | None \<Rightarrow> d)"
| "dict_get _ k d = Inl AttributeError"

text \<open>The truth value that \<open>not x\<close> negates.\<close>

fun truthy :: "json \<Rightarrow> bool" where
  "truthy JNull = False"
| "truthy (JBool b) = b"
| "truthy (JNum n) = (n \<noteq> 0)"
| "truthy (JStr s) = (s \<noteq> [])"
| "truthy (JArr xs) = (xs \<noteq> [])"
| "truthy (JObj kvs) = (kvs \<noteq> [])"

text \<open>
  The elements that \<open>enumerate(x)\<close> runs through: the items of a list, the characters of
  a string, the keys of a dict; anything else is not iterable.
\<close>

fun py_iter :: "json \<Rightarrow> py_error + json list" where
  "py_iter (JArr xs) = Inr xs"
| "py_iter (JStr s) = Inr (map (\<lambda>c. JStr [c]) s)"
| "py_iter (JObj kvs) = Inr (map (\<lambda>kv. JStr (fst kv)) kvs)"
| "py_iter _ = Inl TypeError"

text \<open>
  \<open>x[i]\<close> for an index \<open>i \<ge> 0\<close>. A decoded dict has string keys only, so an integer
  key is never found.
\<close>

fun getitem :: "json \<Rightarrow> nat \<Rightarrow> py_error + json" where
  "getitem (JArr xs) i = (if i < length xs then Inr (xs ! i) else Inl IndexError)"
| "getitem (JStr s) i = (if i < length s then Inr (JStr [s ! i]) else Inl IndexError)"
| "getitem (JObj kvs) i = Inl KeyError"
| "getitem _ i = Inl TypeError"

subsection \<open>Configuration and the request\<close>

definition WEATHER_PARAMS :: "string list" where
  "WEATHER_PARAMS = [''temperature_2m'', ''windspeed_10m'', ''precipitation'', ''weathercode'']"

definition START_DATE :: string where
  "START_DATE = ''2022-07-01''"

definition END_DATE :: string where
  "END_DATE = ''2022-07-31''"

text \<open>The dict that \<open>fetch_cities_from_db\<close> builds for a city and the fetch reads.\<close>

record city_info =
  city :: string
  latitude :: "pyfloat option"
  longitude :: "pyfloat option"

record request =
  r_latitude :: "pyfloat option"
  r_longitude :: "pyfloat option"
  r_hourly :: string
  r_start_date :: string
  r_end_date :: string
  r_timezone :: string

text \<open>\<open>sep.join(xs)\<close>.\<close>

fun join_str :: "string \<Rightarrow> string list \<Rightarrow> string" where
  "join_str sep [] = []"
| "join_str sep [x] = x"
| "join_str sep (x # y # ys) = x @ sep @ join_str sep (y # ys)"

definition request_params :: "city_info \<Rightarrow> request" where
  "request_params city_info =
     \<lparr>r_latitude = latitude city_info, r_longitude = longitude city_info,
      r_hourly = join_str '','' WEATHER_PARAMS,
      r_start_date = START_DATE, r_end_date = END_DATE, r_timezone = ''auto''\<rparr>"

text \<open>
  What one \<open>requests.get\<close> gives: no response (the call raised: connection error or
  timeout), or a response with its status code and the decoding of its body (\<open>None\<close>
  when the body is not JSON).
\<close>

datatype http_reply =
  NoReply
  | Reply nat "json option"

subsection \<open>One attempt\<close>

text \<open>
  A dict of the returned list. \<open>o_values\<close> holds the items of the inner dict
  comprehension, one for each name of \<open>WEATHER_PARAMS\<close>, in that order.
\<close>

record observation =
  o_city :: string
  o_latitude :: "pyfloat option"
  o_longitude :: "pyfloat option"
  o_timestamp :: json
  o_values :: "(string \<times> json) list"

text \<open>
  \<open>{param: hourly_data.get(param, [None])[i] for param in WEATHER_PARAMS}\<close>; the default
  of a missing series is the list with the single element \<open>None\<close>.
\<close>

fun param_values :: "json \<Rightarrow> nat \<Rightarrow> string list \<Rightarrow> py_error + (string \<times> json) list" where
  "param_values hourly_data i [] = Inr []"
| "param_values hourly_data i (param # params) =
     (case dict_get hourly_data param (JArr [JNull]) of
        Inl e \<Rightarrow> Inl e
      | Inr series \<Rightarrow>
          (case getitem series i of
             Inl e \<Rightarrow> Inl e
           | Inr v \<Rightarrow>
               (case param_values hourly_data i params of
                  Inl e \<Rightarrow> Inl e
                | Inr vs \<Rightarrow> Inr ((param, v) # vs))))"

text \<open>The list comprehension of lines 85 to 94, from index \<open>i\<close> on.\<close>

fun observations :: "city_info \<Rightarrow> json \<Rightarrow> nat \<Rightarrow> json list \<Rightarrow> py_error + observation list" where
  "observations city_info hourly_data i [] = Inr []"
| "observations city_info hourly_data i (t # rest) =
     (case param_values hourly_data i WEATHER_PARAMS of
        Inl e \<Rightarrow> Inl e
      | Inr vs \<Rightarrow>
          (case observations city_info hourly_data (Suc i) rest of
             Inl e \<Rightarrow> Inl e
           | Inr rows \<Rightarrow>
               Inr (\<lparr>o_city = city city_info, o_latitude = latitude city_info,
                     o_longitude = longitude city_info, o_timestamp = t,
                     o_values = vs\<rparr> # rows)))"

text \<open>Lines 80 to 94: from the decoded body to the list of observations.\<close>

definition read_hourly :: "city_info \<Rightarrow> json \<Rightarrow> py_error + observation list" where
  "read_hourly city_info data =
     (case dict_get data ''hourly'' (JObj []) of
        Inl e \<Rightarrow> Inl e
      | Inr hourly_data \<Rightarrow>
          (case dict_get hourly_data ''time'' (JArr []) of
             Inl e \<Rightarrow> Inl e
           | Inr time_series \<Rightarrow>
               if \<not> truthy time_series then Inl ValueError
               else (case py_iter time_series of
                       Inl e \<Rightarrow> Inl e
                     | Inr timestamps \<Rightarrow> observations city_info hourly_data 0 timestamps)))"

text \<open>
  The body of the \<open>try\<close>: \<open>requests.get\<close>, \<open>raise_for_status\<close> (which raises for the
  status codes 400 to 599), \<open>response.json()\<close>, then \<open>read_hourly\<close>.
\<close>

definition attempt_once :: "city_info \<Rightarrow> http_reply \<Rightarrow> py_error + observation list" where
  "attempt_once city_info reply =
     (case reply of
        NoReply \<Rightarrow> Inl RequestException
      | Reply status body \<Rightarrow>
          if 400 \<le> status \<and> status < 600 then Inl (HTTPError status)
          else (case body of
                  None \<Rightarrow> Inl JSONDecodeError
                | Some data \<Rightarrow> read_hourly city_info data))"

subsection \<open>The retry loop\<close>

datatype fetch_message =
  AttemptFailed int string py_error
  | FinalFailure string

text \<open>
  The effects of a fetch: the number of endpoint invocations made so far, the delays
  slept, and the log. The endpoint is a function of the request and of the number of
  invocations that came before.
\<close>

record fetch_state =
  calls :: nat
  slept :: "rat list"
  fetch_log :: "fetch_message list"

text \<open>
  The \<open>for\<close> loop over the attempt numbers that are left, and the two lines after it.
  The handler catches every exception of the attempt; \<open>time.sleep\<close>, which the handler
  calls, raises \<open>ValueError\<close> for a negative delay, and nothing catches that.
\<close>

fun attempts ::
  "(request \<Rightarrow> nat \<Rightarrow> http_reply) \<Rightarrow> city_info \<Rightarrow> rat \<Rightarrow> int list \<Rightarrow> fetch_state \<Rightarrow>
     (py_error + observation list) \<times> fetch_state" where
  "attempts endpoint city_info delay [] s =
     (Inr [], s\<lparr>fetch_log := fetch_log s @ [FinalFailure (city city_info)]\<rparr>)"
| "attempts endpoint city_info delay (attempt # rest) s =
     (let reply = endpoint (request_params city_info) (calls s);
          s1 = s\<lparr>calls := Suc (calls s)\<rparr>
      in case attempt_once city_info reply of
           Inr rows \<Rightarrow> (Inr rows, s1)
         | Inl e \<Rightarrow>
             (let s2 = s1\<lparr>fetch_log := fetch_log s1 @ [AttemptFailed (attempt + 1) (city city_info) e]\<rparr>
              in if delay < 0 then (Inl ValueError, s2)
                 else attempts endpoint city_info delay rest (s2\<lparr>slept := slept s2 @ [delay]\<rparr>)))"

text \<open>\<open>range(retries)\<close> is the list \<open>[0..retries - 1]\<close>, empty when \<open>retries \<le> 0\<close>.\<close>

definition fetch_weather_for_city ::
  "(request \<Rightarrow> nat \<Rightarrow> http_reply) \<Rightarrow> city_info \<Rightarrow> int \<Rightarrow> rat \<Rightarrow> fetch_state \<Rightarrow>
     (py_error + observation list) \<times> fetch_state" where
  "fetch_weather_for_city endpoint city_info retries delay s =
     attempts endpoint city_info delay [0..retries - 1] s"

subsection \<open>The catalog reader\<close>

text \<open>
  The database is either unavailable (connecting or querying raises, and the reader
  returns the empty list) or holds the table \<open>shipments.cities\<close>. The query selects
  \<open>name, latitude, longitude\<close> of the rows \<open>WHERE latitude IS NOT NULL AND longitude IS
  NOT NULL\<close>, in the order the database returns them. Logging is left out.
\<close>

datatype database =
  Unavailable
  | Available "city_row list"

definition city_dict :: "city_row \<Rightarrow> city_info" where
  "city_dict row = \<lparr>city = c_name row, latitude = c_latitude row, longitude = c_longitude row\<rparr>"

definition fetch_cities_from_db :: "database \<Rightarrow> city_info list" where
  "fetch_cities_from_db db =
     (case db of
        Unavailable \<Rightarrow> []
      | Available table \<Rightarrow>
          (let results = filter (\<lambda>row. c_latitude row \<noteq> None \<and> c_longitude row \<noteq> None) table;
               cities = map city_dict results
           in cities))"

section \<open>The join, stated on its inputs\<close>

text \<open>
  \<open>enriched_weather\<close> is the value of \<open>merged_weather\<close> when the inner merge reads it:
  the weather table, joined to the catalog, with its hourly key.
\<close>

definition enriched_weather :: "city_row list \<Rightarrow> weather_row list \<Rightarrow> merged_row list" where
  "enriched_weather cs ws =
     map key_weather (merge_left (map normalize_weather ws) (map normalize_city cs))"

text \<open>
  The join as the specification words it: a shipment matches the weather observations
  with the same normalised location name and the same hour; an observation matches the
  catalog cities with the same normalised name, latitude and longitude, and is kept with
  a null city when it matches none.
\<close>

definition matching_observations :: "weather_row list \<Rightarrow> shipment_row \<Rightarrow> weather_row list" where
  "matching_observations ws s =
     filter (\<lambda>w. normalize (w_city w) = normalize (s_start_location s) \<and>
                 floor_h (stamp_of (w_timestamp w)) =
                   floor_h (stamp_of (s_shipment_start_timestamp s))) ws"

definition matching_cities :: "city_row list \<Rightarrow> weather_row \<Rightarrow> city_row list" where
  "matching_cities cs w =
     filter (\<lambda>c. normalize (c_name c) = normalize (w_city w) \<and>
                 c_latitude c = w_latitude w \<and> c_longitude c = w_longitude w) cs"

definition city_options :: "city_row list \<Rightarrow> weather_row \<Rightarrow> city_row option list" where
  "city_options cs w = (case matching_cities cs w of [] \<Rightarrow> [None] | ms \<Rightarrow> map Some ms)"

text \<open>
  The \<open>city_id\<close> cell of a fact row made with the catalog city \<open>co\<close>, or with none: NaN
  without a city; with a city its id, as an integer when every weather observation of
  the input matches a catalog city, and as a double when one of them matches none.
\<close>

definition some_unmatched :: "city_row list \<Rightarrow> weather_row list \<Rightarrow> bool" where
  "some_unmatched cs ws = list_ex (\<lambda>w. matching_cities cs w = []) ws"

definition city_id_cell :: "city_row list \<Rightarrow> weather_row list \<Rightarrow> city_row option \<Rightarrow> id_cell" where
  "city_id_cell cs ws co =
     (case co of
        None \<Rightarrow> NaN
      | Some c \<Rightarrow> if some_unmatched cs ws then FloatId (float64_of_int (c_id c)) else IntId (c_id c))"

definition fact_of :: "id_cell \<Rightarrow> shipment_row \<Rightarrow> weather_row \<Rightarrow> fact_record" where
  "fact_of cell s w =
     \<lparr>shipment_id = s_id s, city_id = cell,
      timestamp = stamp_of (s_shipment_start_timestamp s),
      fuel_consumed_liters = s_consumed_fuel s,
      temperature_2m = w_temperature_2m w, windspeed_10m = w_windspeed_10m w,
      precipitation = w_precipitation w, weathercode = w_weathercode w\<rparr>"

definition join_spec :: "shipment_row list \<Rightarrow> city_row list \<Rightarrow> weather_row list \<Rightarrow> fact_record list" where
  "join_spec ss cs ws =
     (if ss = [] \<or> cs = [] \<or> ws = [] then []
      else concat (map (\<lambda>s. concat (map (\<lambda>w. map (\<lambda>co. fact_of (city_id_cell cs ws co) s w)
                                                  (city_options cs w))
                                        (matching_observations ws s))) ss))"

text \<open>The conversion that the left merge applies to the id column.\<close>

definition id_column :: "city_row list \<Rightarrow> weather_row list \<Rightarrow> id_cell \<Rightarrow> id_cell" where
  "id_column cs ws = (if some_unmatched cs ws then upcast_id else (\<lambda>x. x))"

section \<open>Example tables and responses\<close>

text \<open>The rows of the end-to-end scenario; its timestamps are texts.\<close>

definition berlin_shipment :: shipment_row where
  "berlin_shipment =
     \<lparr>s_id = 1, s_start_location = ''Berlin'',
      s_shipment_start_timestamp = TimeText
        \<lparr>year = 2022, month = 7, day = 1, hour = 8, minute = 15, second = 0, nanosecond = 0\<rparr>,
      s_consumed_fuel = 12.5, s_hourly_timestamp = None, s_city = None\<rparr>"

definition berlin_city :: city_row where
  "berlin_city =
     \<lparr>c_id = 9, c_name = ''Berlin'', c_latitude = Some 52.52, c_longitude = Some 13.40\<rparr>"

definition berlin_weather :: weather_row where
  "berlin_weather =
     \<lparr>w_city = ''berlin'', w_latitude = Some 52.52, w_longitude = Some 13.40,
      w_timestamp = TimeText
        \<lparr>year = 2022, month = 7, day = 1, hour = 8, minute = 0, second = 0, nanosecond = 0\<rparr>,
      w_temperature_2m = Some 21.3, w_windspeed_10m = Some 5.1,
      w_precipitation = Some 0.0, w_weathercode = Some 1\<rparr>"

definition hamburg_shipment :: shipment_row where
  "hamburg_shipment =
     \<lparr>s_id = 2, s_start_location = ''Hamburg'',
      s_shipment_start_timestamp = TimeStamp
        \<lparr>year = 2022, month = 7, day = 1, hour = 9, minute = 30, second = 0, nanosecond = 0\<rparr>,
      s_consumed_fuel = 7.25, s_hourly_timestamp = None, s_city = None\<rparr>"

text \<open>A second catalog row with Berlin's key, and one whose latitude differs.\<close>

definition berlin_city_again :: city_row where
  "berlin_city_again =
     \<lparr>c_id = 10, c_name = '' BERLIN'', c_latitude = Some 52.52, c_longitude = Some 13.40\<rparr>"

definition berlin_city_moved :: city_row where
  "berlin_city_moved =
     \<lparr>c_id = 9, c_name = ''Berlin'', c_latitude = Some 52.5, c_longitude = Some 13.40\<rparr>"

definition miami_shipment :: shipment_row where
  "miami_shipment =
     \<lparr>s_id = 5, s_start_location = ''MIAMI '',
      s_shipment_start_timestamp = TimeStamp
        \<lparr>year = 2022, month = 7, day = 4, hour = 17, minute = 59, second = 59, nanosecond = 0\<rparr>,
      s_consumed_fuel = 3, s_hourly_timestamp = None, s_city = None\<rparr>"

definition miami_city :: city_row where
  "miami_city =
     \<lparr>c_id = 3, c_name = ''Miami'', c_latitude = Some 25.76, c_longitude = Some (-80.19)\<rparr>"

definition miami_weather :: weather_row where
  "miami_weather =
     \<lparr>w_city = ''  miami '', w_latitude = Some 25.76, w_longitude = Some (-80.19),
      w_timestamp = TimeText
        \<lparr>year = 2022, month = 7, day = 4, hour = 17, minute = 0, second = 0, nanosecond = 0\<rparr>,
      w_temperature_2m = Some 31.4, w_windspeed_10m = None,
      w_precipitation = Some 0.2, w_weathercode = Some 3\<rparr>"

text \<open>
  A catalog city whose id has 54 bits, a shipment from it, its weather row, and a weather
  row of a place that the catalog does not have.
\<close>

definition lima_city :: city_row where
  "lima_city =
     \<lparr>c_id = 9007199254740993, c_name = ''Lima'', c_latitude = Some (-12.05),
      c_longitude = Some (-77.04)\<rparr>"

definition lima_shipment :: shipment_row where
  "lima_shipment =
     \<lparr>s_id = 6, s_start_location = ''Lima'',
      s_shipment_start_timestamp = TimeStamp
        \<lparr>year = 2022, month = 7, day = 9, hour = 6, minute = 5, second = 0, nanosecond = 0\<rparr>,
      s_consumed_fuel = 40, s_hourly_timestamp = None, s_city = None\<rparr>"

definition lima_weather :: weather_row where
  "lima_weather =
     \<lparr>w_city = ''Lima'', w_latitude = Some (-12.05), w_longitude = Some (-77.04),
      w_timestamp = TimeText
        \<lparr>year = 2022, month = 7, day = 9, hour = 6, minute = 0, second = 0, nanosecond = 0\<rparr>,
      w_temperature_2m = Some 17.2, w_windspeed_10m = Some 9.4,
      w_precipitation = Some 0, w_weathercode = Some 2\<rparr>"

definition quito_weather :: weather_row where
  "quito_weather =
     \<lparr>w_city = ''Quito'', w_latitude = Some (-0.18), w_longitude = Some (-78.47),
      w_timestamp = TimeText
        \<lparr>year = 2022, month = 7, day = 9, hour = 6, minute = 0, second = 0, nanosecond = 0\<rparr>,
      w_temperature_2m = Some 12.9, w_windspeed_10m = Some 3.1,
      w_precipitation = Some 1.4, w_weathercode = Some 61\<rparr>"

definition oslo_no_longitude :: city_row where
  "oslo_no_longitude =
     \<lparr>c_id = 4, c_name = ''Oslo'', c_latitude = Some 59.91, c_longitude = None\<rparr>"

definition berlin_info :: city_info where
  "berlin_info = \<lparr>city = ''Berlin'', latitude = Some 52.52, longitude = Some 13.40\<rparr>"

definition initial_state :: fetch_state where
  "initial_state = \<lparr>calls = 0, slept = [], fetch_log = []\<rparr>"

text \<open>
  An endpoint that fails in a different way at each of its first four invocations: no
  response, status 503, a body that is not JSON, an empty time series.
\<close>

definition flaky_endpoint :: "request \<Rightarrow> nat \<Rightarrow> http_reply" where
  "flaky_endpoint r n =
     (if n = 0 then NoReply
      else if n = 1 then Reply 503 None
      else if n = 2 then Reply 200 None
      else Reply 200 (Some (JObj [(''hourly'', JObj [(''time'', JArr [])])])))"

text \<open>Two responses without the series \<open>temperature_2m\<close>: one hour, and two hours.\<close>

definition one_hour_no_temperature :: json where
  "one_hour_no_temperature =
     JObj [(''hourly'', JObj
       [(''time'', JArr [JStr ''2022-07-01T00:00'']),
        (''windspeed_10m'', JArr [JNum 5.1]),
        (''precipitation'', JArr [JNum 0]),
        (''weathercode'', JArr [JNum 1])])]"

definition two_hours_no_temperature :: json where
  "two_hours_no_temperature =
     JObj [(''hourly'', JObj
       [(''time'', JArr [JStr ''2022-07-01T00:00'', JStr ''2022-07-01T01:00'']),
        (''windspeed_10m'', JArr [JNum 5.1, JNum 4.8]),
        (''precipitation'', JArr [JNum 0, JNum 0.3]),
        (''weathercode'', JArr [JNum 1, JNum 61])])]"

section \<open>Lemmas on the values\<close>

lemma significand_unit_small: "a < 9007199254740992 \<Longrightarrow> significand_unit a = 1"
  by (simp add: significand_unit.simps)

text \<open>An integer of at most 53 bits is its own double.\<close>

lemma float64_of_int_exact:
  assumes "\<bar>n\<bar> < 9007199254740992"
  shows "float64_of_int n = of_int n"
proof -
  have "sgn n * (round_half_even \<bar>n\<bar> 1 * 1) = n"
    by (simp add: round_half_even_def sgn_mult_abs)
  with assms show ?thesis
    by (simp add: float64_of_int_def Let_def significand_unit_small del: of_int_mult)
qed

text \<open>What \<open>strip\<close> removes is white space, and what it leaves has none at its ends.\<close>

lemma dropWhile_strip:
  "dropWhile is_space s =
     strip s @ rev (takeWhile is_space (rev (dropWhile is_space s)))"
proof -
  let ?t = "dropWhile is_space s"
  have "strip s @ rev (takeWhile is_space (rev ?t)) =
      rev (takeWhile is_space (rev ?t) @ dropWhile is_space (rev ?t))"
    by (simp only: strip_def rev_append)
  also have "\<dots> = ?t" by simp
  finally show ?thesis by simp
qed

lemma strip_decomposition:
  "\<exists>pre post. s = pre @ strip s @ post \<and> list_all is_space pre \<and> list_all is_space post"
proof -
  let ?pre = "takeWhile is_space s"
  let ?post = "rev (takeWhile is_space (rev (dropWhile is_space s)))"
  have "s = ?pre @ dropWhile is_space s" by simp
  with dropWhile_strip [of s] have s: "s = ?pre @ strip s @ ?post" by simp
  have pre: "list_all is_space ?pre"
    by (simp add: list_all_iff) (meson set_takeWhileD)
  have post: "list_all is_space ?post"
    by (simp add: list_all_iff) (meson set_takeWhileD)
  from s pre post show ?thesis by blast
qed

lemma strip_ends:
  "strip s = [] \<or> (\<not> is_space (hd (strip s)) \<and> \<not> is_space (last (strip s)))"
proof (cases "strip s = []")
  case True
  then show ?thesis by simp
next
  case False
  let ?t = "dropWhile is_space s"
  let ?u = "dropWhile is_space (rev ?t)"
  from False have u: "?u \<noteq> []" by (simp add: strip_def)
  then have "\<not> is_space (hd ?u)" by (rule hd_dropWhile)
  moreover have "last (strip s) = hd ?u"
    using u by (simp add: strip_def last_rev)
  ultimately have last: "\<not> is_space (last (strip s))" by simp
  have "?t \<noteq> []"
  proof
    assume "?t = []"
    then have "strip s @ rev (takeWhile is_space (rev ?t)) = []"
      using dropWhile_strip [of s] by simp
    with False show False by simp
  qed
  then have "\<not> is_space (hd ?t)" by (rule hd_dropWhile)
  moreover have "hd ?t = hd (strip s)"
    using False dropWhile_strip [of s] by (metis hd_append2)
  ultimately show ?thesis using last by simp
qed

lemma is_space_codes:
  "is_space c \<longleftrightarrow> (of_char c :: nat) \<in> {9, 10, 11, 12, 13, 28, 29, 30, 31, 32, 133, 160}"
  by (auto simp: is_space_def Let_def)

lemma lower_char_codes:
  "(of_char (lower_char c) :: nat) =
     (if (of_char c :: nat) \<in> {65..90} \<union> {192..214} \<union> {216..222} then of_char c + 32
      else of_char c)"
  by (auto simp: lower_char_def Let_def)

section \<open>Lemmas on the join\<close>

lemma result_unfold:
  "result (preprocess_and_join ss cs ws) =
     (if ss = [] \<or> cs = [] \<or> ws = [] then []
      else map project (merge_inner (map key_shipment ss) (enriched_weather cs ws)))"
  by (simp add: preprocess_and_join_def enriched_weather_def Let_def)

text \<open>The fact table is the concatenation, in order, of the rows of each shipment.\<close>

lemma result_concat:
  "result (preprocess_and_join ss cs ws) =
     (if cs = [] \<or> ws = [] then []
      else concat (map (\<lambda>s. map project (inner_rows (enriched_weather cs ws) (key_shipment s))) ss))"
  by (simp add: result_unfold merge_inner_def map_concat comp_def)

lemma result_by_shipment:
  "result (preprocess_and_join ss cs ws) =
     concat (map (\<lambda>s. result (preprocess_and_join [s] cs ws)) ss)"
  by (simp add: result_concat)

lemma key_matches_key_shipment:
  "key_matches (key_shipment s) m \<longleftrightarrow>
     m_city m = normalize (s_start_location s) \<and>
     m_hourly_timestamp m = Some (floor_h (stamp_of (s_shipment_start_timestamp s)))"
  by (auto simp: key_matches_def key_shipment_def to_datetime_def Let_def)

lemma filter_city_matches:
  "filter (city_matches (normalize_weather w)) (map normalize_city cs) =
     map normalize_city (matching_cities cs w)"
  by (simp add: filter_map comp_def matching_cities_def city_matches_def
        normalize_weather_def normalize_city_def eq_commute conj_commute)

lemma left_rows_normalized:
  "left_rows (map normalize_city cs) (normalize_weather w) =
     map (\<lambda>co. merged (normalize_weather w) (map_option normalize_city co)) (city_options cs w)"
  by (simp add: left_rows_def filter_city_matches city_options_def comp_def split: list.split)

lemma set_city_options:
  "co \<in> set (city_options cs w) \<longleftrightarrow>
     (co = None \<and> matching_cities cs w = []) \<or> (\<exists>c\<in>set (matching_cities cs w). co = Some c)"
  by (cases "matching_cities cs w") (auto simp: city_options_def)

text \<open>The left merge fills a missing id in exactly when an observation has no city.\<close>

lemma left_rows_nan:
  "list_ex (\<lambda>m. m_id m = NaN) (left_rows (map normalize_city cs) (normalize_weather w)) \<longleftrightarrow>
     matching_cities cs w = []"
  by (cases "matching_cities cs w")
     (auto simp: left_rows_normalized city_options_def merged_def list_ex_iff)

lemma merged_rows_nan:
  "list_ex (\<lambda>m. m_id m = NaN)
     (concat (map (left_rows (map normalize_city cs)) (map normalize_weather ws))) \<longleftrightarrow>
   some_unmatched cs ws"
proof -
  have "list_ex (\<lambda>m. m_id m = NaN)
     (concat (map (left_rows (map normalize_city cs)) (map normalize_weather ws))) \<longleftrightarrow>
     (\<exists>w\<in>set ws. list_ex (\<lambda>m. m_id m = NaN) (left_rows (map normalize_city cs) (normalize_weather w)))"
    by (auto simp: list_ex_iff)
  then show ?thesis
    by (simp add: left_rows_nan some_unmatched_def) (simp add: list_ex_iff)
qed

lemma enriched_weather_rows:
  "enriched_weather cs ws =
     map (\<lambda>m. key_weather (m\<lparr>m_id := id_column cs ws (m_id m)\<rparr>))
       (concat (map (left_rows (map normalize_city cs)) (map normalize_weather ws)))"
  using merged_rows_nan [of cs ws]
  by (simp add: enriched_weather_def merge_left_def Let_def id_column_def comp_def)

lemma key_matches_enriched:
  "key_matches (key_shipment s) (key_weather ((merged (normalize_weather w) co)\<lparr>m_id := x\<rparr>)) \<longleftrightarrow>
     normalize (w_city w) = normalize (s_start_location s) \<and>
     floor_h (stamp_of (w_timestamp w)) = floor_h (stamp_of (s_shipment_start_timestamp s))"
  by (auto simp: key_matches_def key_shipment_def key_weather_def merged_def
        normalize_weather_def to_datetime_def Let_def)

lemma project_enriched:
  "project (key_shipment s,
            key_weather ((merged (normalize_weather w) (map_option normalize_city co))\<lparr>m_id := x\<rparr>)) =
     fact_of x s w"
  by (simp add: project_def key_shipment_def key_weather_def merged_def fact_of_def
        normalize_weather_def to_datetime_def Let_def)

lemma id_column_cell:
  "id_column cs ws (m_id (merged w' (map_option normalize_city co))) = city_id_cell cs ws co"
  by (cases co) (simp_all add: id_column_def city_id_cell_def merged_def normalize_city_def)

lemma shipment_rows_of:
  "map project
     (inner_rows
        (map (\<lambda>m. key_weather (m\<lparr>m_id := h (m_id m)\<rparr>))
           (concat (map (left_rows (map normalize_city cs)) (map normalize_weather ws))))
        (key_shipment s)) =
   concat (map (\<lambda>w. map (\<lambda>co. fact_of
                           (h (m_id (merged (normalize_weather w) (map_option normalize_city co)))) s w)
                       (city_options cs w))
             (matching_observations ws s))"
proof (induction ws)
  case Nil
  then show ?case by (simp add: inner_rows_def matching_observations_def)
next
  case (Cons w ws)
  show ?case
  proof (cases "normalize (w_city w) = normalize (s_start_location s) \<and>
                floor_h (stamp_of (w_timestamp w)) =
                  floor_h (stamp_of (s_shipment_start_timestamp s))")
    case True
    then have "matching_observations (w # ws) s = w # matching_observations ws s"
      by (simp add: matching_observations_def)
    with True Cons.IH show ?thesis
      by (simp add: left_rows_normalized inner_rows_def filter_map comp_def
            key_matches_enriched project_enriched)
  next
    case False
    then have "matching_observations (w # ws) s = matching_observations ws s"
      by (auto simp: matching_observations_def)
    with False Cons.IH show ?thesis
      by (simp add: left_rows_normalized inner_rows_def filter_map comp_def key_matches_enriched)
  qed
qed

lemma shipment_rows:
  "map project (inner_rows (enriched_weather cs ws) (key_shipment s)) =
     concat (map (\<lambda>w. map (\<lambda>co. fact_of (city_id_cell cs ws co) s w) (city_options cs w))
               (matching_observations ws s))"
  by (simp only: enriched_weather_rows shipment_rows_of id_column_cell)

lemma result_join_spec: "result (preprocess_and_join ss cs ws) = join_spec ss cs ws"
  by (auto simp: result_concat shipment_rows join_spec_def matching_observations_def)

lemma length_city_options:
  "length (city_options cs w) = max 1 (length (matching_cities cs w))"
  by (cases "matching_cities cs w") (simp_all add: city_options_def)

lemma sum_list_ones:
  "list_all (\<lambda>x. f x = (1::nat)) xs \<Longrightarrow> sum_list (map f xs) = length xs"
  by (induction xs) simp_all

text \<open>
  The number of fact rows of one shipment: nothing for an empty catalog; otherwise each
  matching observation counts once for each catalog city it matches, and once when it
  matches none.
\<close>

lemma shipment_row_count:
  "length (result (preprocess_and_join [s] cs ws)) =
     (if cs = [] then 0
      else sum_list (map (\<lambda>w. max 1 (length (matching_cities cs w))) (matching_observations ws s)))"
  by (auto simp: result_join_spec join_spec_def length_concat comp_def
        length_city_options matching_observations_def)

text \<open>The rows of the fact table, each with its shipment, its observation and its city.\<close>

lemma result_rows:
  "r \<in> set (result (preprocess_and_join ss cs ws)) \<longleftrightarrow>
     cs \<noteq> [] \<and>
     (\<exists>s\<in>set ss. \<exists>w\<in>set (matching_observations ws s). \<exists>co\<in>set (city_options cs w).
        r = fact_of (city_id_cell cs ws co) s w)"
  by (auto simp: result_join_spec join_spec_def matching_observations_def)

section \<open>Lemmas on the fetch\<close>

lemma attempts_all_fail:
  assumes "0 \<le> delay"
    and "\<forall>n<length as. isl (attempt_once city_info (endpoint (request_params city_info) (calls s + n)))"
  shows "fst (attempts endpoint city_info delay as s) = Inr [] \<and>
         calls (snd (attempts endpoint city_info delay as s)) = calls s + length as \<and>
         slept (snd (attempts endpoint city_info delay as s)) = slept s @ replicate (length as) delay \<and>
         last (fetch_log (snd (attempts endpoint city_info delay as s))) = FinalFailure (city city_info)"
  using assms(2)
proof (induction as arbitrary: s)
  case Nil
  then show ?case by simp
next
  case (Cons a as)
  from Cons.prems have "isl (attempt_once city_info (endpoint (request_params city_info) (calls s)))"
    by force
  then obtain e where e: "attempt_once city_info (endpoint (request_params city_info) (calls s)) = Inl e"
    by (auto simp: isl_def)
  let ?s' = "s\<lparr>calls := Suc (calls s),
                fetch_log := fetch_log s @ [AttemptFailed (a + 1) (city city_info) e],
                slept := slept s @ [delay]\<rparr>"
  have step: "attempts endpoint city_info delay (a # as) s = attempts endpoint city_info delay as ?s'"
    using e assms(1) by (simp add: Let_def)
  have "\<forall>n<length as. isl (attempt_once city_info (endpoint (request_params city_info) (calls ?s' + n)))"
    using Cons.prems by force
  from Cons.IH [OF this] show ?case
    by (simp add: step del: attempts.simps)
qed

text \<open>With a negative delay the first failed attempt ends the fetch with an exception.\<close>

lemma negative_delay_raises:
  assumes "delay < 0" and "0 < retries"
    and "attempt_once city_info (endpoint (request_params city_info) (calls s)) = Inl e"
  shows "fst (fetch_weather_for_city endpoint city_info retries delay s) = Inl ValueError"
proof -
  from assms(2) have "[0..retries - 1] = 0 # [1..retries - 1]"
    by (simp add: upto_rec1)
  with assms(1,3) show ?thesis
    by (simp add: fetch_weather_for_city_def Let_def)
qed

lemma param_values_aligned:
  assumes "\<forall>p\<in>set ps. map_of kvs p = Some (JArr (series p)) \<and> i < length (series p)"
  shows "param_values (JObj kvs) i ps = Inr (map (\<lambda>p. (p, series p ! i)) ps)"
  using assms by (induction ps) simp_all

lemma observations_aligned:
  assumes "\<forall>p\<in>set WEATHER_PARAMS.
             map_of kvs p = Some (JArr (series p)) \<and> i + length ts \<le> length (series p)"
  shows "observations city_info (JObj kvs) i ts =
     Inr (map (\<lambda>(j, t). \<lparr>o_city = city city_info, o_latitude = latitude city_info,
                         o_longitude = longitude city_info, o_timestamp = t,
                         o_values = map (\<lambda>p. (p, series p ! j)) WEATHER_PARAMS\<rparr>)
            (List.enumerate i ts))"
  using assms
proof (induction ts arbitrary: i)
  case Nil
  then show ?case by simp
next
  case (Cons t ts)
  have here: "param_values (JObj kvs) i WEATHER_PARAMS =
      Inr (map (\<lambda>p. (p, series p ! i)) WEATHER_PARAMS)"
    using Cons.prems by (intro param_values_aligned) auto
  have "\<forall>p\<in>set WEATHER_PARAMS.
          map_of kvs p = Some (JArr (series p)) \<and> Suc i + length ts \<le> length (series p)"
    using Cons.prems by auto
  from Cons.IH [OF this] here show ?case by simp
qed

text \<open>
  An attempt whose response has a non-empty \<open>time\<close> array and, for every requested
  variable, an array that is at least as long, succeeds: one observation for each
  timestamp, with the values at the timestamp's index.
\<close>

lemma aligned_response_rows:
  assumes "map_of body ''hourly'' = Some (JObj kvs)"
    and "map_of kvs ''time'' = Some (JArr ts)"
    and "ts \<noteq> []"
    and "\<forall>p\<in>set WEATHER_PARAMS.
           map_of kvs p = Some (JArr (series p)) \<and> length ts \<le> length (series p)"
    and "status < 400 \<or> 600 \<le> status"
  shows "attempt_once city_info (Reply status (Some (JObj body))) =
     Inr (map (\<lambda>(i, t). \<lparr>o_city = city city_info, o_latitude = latitude city_info,
                         o_longitude = longitude city_info, o_timestamp = t,
                         o_values = map (\<lambda>p. (p, series p ! i)) WEATHER_PARAMS\<rparr>)
            (List.enumerate 0 ts))"
proof -
  have "observations city_info (JObj kvs) 0 ts =
     Inr (map (\<lambda>(i, t). \<lparr>o_city = city city_info, o_latitude = latitude city_info,
                         o_longitude = longitude city_info, o_timestamp = t,
                         o_values = map (\<lambda>p. (p, series p ! i)) WEATHER_PARAMS\<rparr>)
            (List.enumerate 0 ts))"
    using assms(4) by (intro observations_aligned) simp
  with assms show ?thesis
    by (auto simp: attempt_once_def read_hourly_def)
qed

section \<open>The claims\<close>

text \<open>
  C1. For the one shipment, one city and one weather row of the end-to-end scenario, the
  join returns exactly one fact record, with the values of the scenario; its timestamp is
  the shipment's own 08:15:00, not the 08:00:00 of the matching key.
\<close>

theorem end_to_end_scenario:
  "result (preprocess_and_join [berlin_shipment] [berlin_city] [berlin_weather]) =
     [\<lparr>shipment_id = 1, city_id = IntId 9,
       timestamp =
         \<lparr>year = 2022, month = 7, day = 1, hour = 8, minute = 15, second = 0, nanosecond = 0\<rparr>,
       fuel_consumed_liters = 12.5,
       temperature_2m = Some 21.3, windspeed_10m = Some 5.1,
       precipitation = Some 0.0, weathercode = Some 1\<rparr>]"
  by code_simp

text \<open>
  C2. If one of the three input tables is empty, the join returns the empty table, leaves
  the three frames as they were, and logs the warning only: no column is normalised and
  no key is computed.
\<close>

theorem empty_input_short_circuit:
  "ss = [] \<or> cs = [] \<or> ws = [] \<Longrightarrow>
   preprocess_and_join ss cs ws =
     \<lparr>result = [], shipments_after = ss, cities_after = cs, weather_after = ws,
      messages = [WarnEmptyInput]\<rparr>"
  by (simp add: preprocess_and_join_def)

text \<open>
  With an empty catalog, the merges alone would pair the Berlin shipment with the Berlin
  weather row; the function returns before them.
\<close>

theorem empty_input_short_circuit_witness:
  "([] :: city_row list) = [] \<and>
   merge_inner (map key_shipment [berlin_shipment]) (enriched_weather [] [berlin_weather]) \<noteq> [] \<and>
   preprocess_and_join [berlin_shipment] [] [berlin_weather] =
     \<lparr>result = [], shipments_after = [berlin_shipment], cities_after = [],
      weather_after = [berlin_weather], messages = [WarnEmptyInput]\<rparr>"
proof -
  have "merge_inner (map key_shipment [berlin_shipment]) (enriched_weather [] [berlin_weather]) \<noteq> []"
    by code_simp
  then show ?thesis
    using empty_input_short_circuit [of "[berlin_shipment]" "[]" "[berlin_weather]"] by simp
qed

text \<open>
  C3. For every location, endpoint and number of retries, and every delay that is not
  negative: if each attempt of the fetch fails (no response, an HTTP error status, a body
  that does not decode, an empty time series, or any other exception of the attempt), the
  fetch invokes the endpoint exactly \<open>retries\<close> times (no time when \<open>retries\<close> is not
  positive), raises nothing, returns the empty list, and logs the final failure last.
\<close>

theorem retries_exhausted:
  assumes "0 \<le> delay"
    and "list_all (\<lambda>n. isl (attempt_once city_info (endpoint (request_params city_info) (calls s + n))))
           [0..<nat retries]"
  shows "fst (fetch_weather_for_city endpoint city_info retries delay s) = Inr [] \<and>
         calls (snd (fetch_weather_for_city endpoint city_info retries delay s)) =
           calls s + nat retries \<and>
         last (fetch_log (snd (fetch_weather_for_city endpoint city_info retries delay s))) =
           FinalFailure (city city_info)"
proof -
  have len: "length [0..retries - 1] = nat retries" by simp
  have "\<forall>n<length [0..retries - 1].
          isl (attempt_once city_info (endpoint (request_params city_info) (calls s + n)))"
    using assms(2) by (simp add: list_all_iff len)
  with assms(1) show ?thesis
    using attempts_all_fail [of delay "[0..retries - 1]" city_info endpoint s]
    by (simp add: fetch_weather_for_city_def)
qed

theorem retries_exhausted_witness:
  "(0::rat) \<le> 2 \<and>
   list_all (\<lambda>n. isl (attempt_once berlin_info
                        (flaky_endpoint (request_params berlin_info) (calls initial_state + n))))
     [0..<nat 4] \<and>
   fst (fetch_weather_for_city flaky_endpoint berlin_info 4 2 initial_state) = Inr [] \<and>
   calls (snd (fetch_weather_for_city flaky_endpoint berlin_info 4 2 initial_state)) = 4 \<and>
   last (fetch_log (snd (fetch_weather_for_city flaky_endpoint berlin_info 4 2 initial_state))) =
     FinalFailure ''Berlin''"
proof -
  have d: "(0::rat) \<le> 2" by simp
  have h: "list_all (\<lambda>n. isl (attempt_once berlin_info
                        (flaky_endpoint (request_params berlin_info) (calls initial_state + n))))
     [0..<nat 4]"
    by code_simp
  have c: "calls initial_state = 0 \<and> city berlin_info = ''Berlin''"
    by (simp add: initial_state_def berlin_info_def)
  show ?thesis
    using d h c
      retries_exhausted [where delay = 2 and city_info = berlin_info and
        endpoint = flaky_endpoint and s = initial_state and retries = 4]
    by simp
qed

text \<open>
  C4. The claim: an attempt whose response has a non-empty \<open>time\<close> array succeeds, with
  null for every timestamp of a variable the upstream omits. The code at a response that
  omits \<open>temperature_2m\<close>: with one timestamp the attempt succeeds and the value is null;
  with two timestamps the default \<open>[None]\<close> has no element at index 1, the attempt fails
  with \<open>IndexError\<close>, and a fetch that gets this response at each of its three attempts
  returns the empty list.
\<close>

theorem omitted_variable_fails:
  "attempt_once berlin_info (Reply 200 (Some one_hour_no_temperature)) =
     Inr [\<lparr>o_city = ''Berlin'', o_latitude = Some 52.52, o_longitude = Some 13.40,
           o_timestamp = JStr ''2022-07-01T00:00'',
           o_values = [(''temperature_2m'', JNull), (''windspeed_10m'', JNum 5.1),
                       (''precipitation'', JNum 0), (''weathercode'', JNum 1)]\<rparr>] \<and>
   attempt_once berlin_info (Reply 200 (Some two_hours_no_temperature)) = Inl IndexError \<and>
   fetch_weather_for_city (\<lambda>r n. Reply 200 (Some two_hours_no_temperature)) berlin_info 3 2
       initial_state =
     (Inr [],
      \<lparr>calls = 3, slept = [2, 2, 2],
       fetch_log = [AttemptFailed 1 ''Berlin'' IndexError, AttemptFailed 2 ''Berlin'' IndexError,
                    AttemptFailed 3 ''Berlin'' IndexError, FinalFailure ''Berlin'']\<rparr>)"
  by code_simp

text \<open>
  C5. The fact table is the one the specification describes, in which every comparison of
  names is a comparison of normalised names: the shipment's \<open>start_location\<close> with the
  observation's location name, and the catalog city's name with the observation's
  location name. The three key columns hold \<open>normalize\<close> of the three names, and
  \<open>normalize\<close> is the trimmed, lower-cased name: what is cut from a name is white space
  at its two ends, what is left has no white space at its ends, and each character of it
  is lower-cased; white space is the code points 9 to 13, 28 to 32, 133 and 160, and the
  letters that change are \<open>A\<close> to \<open>Z\<close> and the capital letters of Latin-1. So \<open>Miami\<close>
  and \<open>miami\<close> between blanks have the key \<open>miami\<close>, inner blanks stay, names that
  differ by more than case and outer white space have different keys, and a shipment from
  \<open>MIAMI\<close> gets the id of the catalog city \<open>Miami\<close> through such a weather row.
\<close>

theorem key_normalization_uniform:
  "result (preprocess_and_join ss cs ws) = join_spec ss cs ws \<and>
   s_city (key_shipment sh) = Some (normalize (s_start_location sh)) \<and>
   c_name (normalize_city c) = normalize (c_name c) \<and>
   w_city (normalize_weather w) = normalize (w_city w) \<and>
   normalize nm = map lower_char (strip nm) \<and>
   (\<exists>pre post. nm = pre @ strip nm @ post \<and> list_all is_space pre \<and> list_all is_space post) \<and>
   (strip nm = [] \<or> (\<not> is_space (hd (strip nm)) \<and> \<not> is_space (last (strip nm)))) \<and>
   (is_space ch \<longleftrightarrow>
      (of_char ch :: nat) \<in> {9, 10, 11, 12, 13, 28, 29, 30, 31, 32, 133, 160}) \<and>
   (of_char (lower_char ch) :: nat) =
     (if (of_char ch :: nat) \<in> {65..90} \<union> {192..214} \<union> {216..222} then of_char ch + 32
      else of_char ch) \<and>
   normalize ''Miami'' = ''miami'' \<and>
   normalize ''  miami '' = ''miami'' \<and>
   normalize ''New York'' = ''new york'' \<and>
   normalize ''Miami'' \<noteq> normalize ''Tampa'' \<and>
   normalize [CHR 0xA0, CHR 0xDC, CHR ''b'', CHR 0x85] = [CHR 0xFC, CHR ''b''] \<and>
   map city_id (result (preprocess_and_join [miami_shipment] [miami_city] [miami_weather])) =
     [IntId 3]"
proof -
  have keys: "s_city (key_shipment sh) = Some (normalize (s_start_location sh)) \<and>
      c_name (normalize_city c) = normalize (c_name c) \<and>
      w_city (normalize_weather w) = normalize (w_city w)"
    by (simp add: key_shipment_def normalize_city_def normalize_weather_def Let_def)
  have trim: "normalize nm = map lower_char (strip nm)"
    by (simp add: normalize_def lower_def)
  have examples: "normalize ''Miami'' = ''miami'' \<and>
      normalize ''  miami '' = ''miami'' \<and>
      normalize ''New York'' = ''new york'' \<and>
      normalize ''Miami'' \<noteq> normalize ''Tampa'' \<and>
      normalize [CHR 0xA0, CHR 0xDC, CHR ''b'', CHR 0x85] = [CHR 0xFC, CHR ''b'']"
    by code_simp
  have miami: "map city_id (result (preprocess_and_join [miami_shipment] [miami_city] [miami_weather])) =
     [IntId 3]"
    by code_simp
  from keys trim examples miami show ?thesis
    using result_join_spec [of ss cs ws] strip_decomposition [of nm] strip_ends [of nm]
      is_space_codes [of ch] lower_char_codes [of ch]
    by blast
qed

text \<open>
  C6. A shipment whose normalised \<open>start_location\<close> and hour-floored timestamp match no
  row of the city-enriched weather table gets no fact row, and the fact table is the one
  the join returns for the shipments table without that shipment.
\<close>

theorem unmatched_shipment_excluded:
  assumes "filter (\<lambda>m. m_city m = normalize (s_start_location s) \<and>
                        m_hourly_timestamp m = Some (floor_h (stamp_of (s_shipment_start_timestamp s))))
             (enriched_weather cs ws) = []"
  shows "result (preprocess_and_join [s] cs ws) = [] \<and>
         result (preprocess_and_join (xs @ s # ys) cs ws) =
           result (preprocess_and_join (xs @ ys) cs ws)"
proof -
  have "inner_rows (enriched_weather cs ws) (key_shipment s) = []"
    using assms by (simp add: inner_rows_def key_matches_key_shipment [abs_def])
  then show ?thesis by (simp add: result_concat)
qed

theorem unmatched_shipment_excluded_witness:
  "filter (\<lambda>m. m_city m = normalize (s_start_location hamburg_shipment) \<and>
                m_hourly_timestamp m = Some (floor_h (stamp_of (s_shipment_start_timestamp hamburg_shipment))))
     (enriched_weather [berlin_city] [berlin_weather]) = [] \<and>
   result (preprocess_and_join [hamburg_shipment] [berlin_city] [berlin_weather]) = [] \<and>
   result (preprocess_and_join ([berlin_shipment] @ hamburg_shipment # [berlin_shipment])
             [berlin_city] [berlin_weather]) =
     result (preprocess_and_join ([berlin_shipment] @ [berlin_shipment]) [berlin_city] [berlin_weather]) \<and>
   length (result (preprocess_and_join ([berlin_shipment] @ hamburg_shipment # [berlin_shipment])
             [berlin_city] [berlin_weather])) = 2"
proof -
  have h: "filter (\<lambda>m. m_city m = normalize (s_start_location hamburg_shipment) \<and>
                m_hourly_timestamp m = Some (floor_h (stamp_of (s_shipment_start_timestamp hamburg_shipment))))
     (enriched_weather [berlin_city] [berlin_weather]) = []"
    by code_simp
  have n: "length (result (preprocess_and_join ([berlin_shipment] @ hamburg_shipment # [berlin_shipment])
             [berlin_city] [berlin_weather])) = 2"
    by code_simp
  show ?thesis
    using h n unmatched_shipment_excluded [OF h, of "[berlin_shipment]" "[berlin_shipment]"]
    by simp
qed

text \<open>
  C7, as stated, fails: the Berlin shipment matches two weather observations with the
  same key, the catalog holds two rows with Berlin's normalised name and coordinates, and
  the join emits four fact rows for the shipment.
\<close>

theorem duplicate_catalog_counterexample:
  "length (matching_observations [berlin_weather, berlin_weather] berlin_shipment) = 2 \<and>
   length (result (preprocess_and_join [berlin_shipment] [berlin_city, berlin_city_again]
                     [berlin_weather, berlin_weather])) = 4"
  by code_simp

text \<open>
  C7, amended. For a catalog that is not empty and a shipment that matches \<open>k\<close> weather
  observations, each of which matches at most one catalog city on normalised name,
  latitude and longitude, the join emits exactly \<open>k\<close> fact rows for that shipment, in one
  block between the rows of the shipments before it and of those after it: weather rows
  with the same key fan out and are not deduplicated.
\<close>

theorem duplicate_weather_fans_out:
  assumes "cs \<noteq> []"
    and "list_all (\<lambda>w. length (matching_cities cs w) \<le> 1) (matching_observations ws s)"
  shows "length (result (preprocess_and_join [s] cs ws)) = length (matching_observations ws s) \<and>
         result (preprocess_and_join (xs @ s # ys) cs ws) =
           result (preprocess_and_join xs cs ws) @ result (preprocess_and_join [s] cs ws) @
           result (preprocess_and_join ys cs ws)"
proof -
  have "list_all (\<lambda>w. max 1 (length (matching_cities cs w)) = 1) (matching_observations ws s)"
    using assms(2) by (auto simp: list_all_iff max_def)
  then have "sum_list (map (\<lambda>w. max 1 (length (matching_cities cs w))) (matching_observations ws s)) =
      length (matching_observations ws s)"
    by (rule sum_list_ones)
  then have "length (result (preprocess_and_join [s] cs ws)) = length (matching_observations ws s)"
    using assms(1) by (simp add: shipment_row_count)
  moreover have "result (preprocess_and_join (xs @ s # ys) cs ws) =
           result (preprocess_and_join xs cs ws) @ result (preprocess_and_join [s] cs ws) @
           result (preprocess_and_join ys cs ws)"
    by (simp add: result_concat)
  ultimately show ?thesis by simp
qed

theorem duplicate_weather_fans_out_witness:
  "[berlin_city] \<noteq> [] \<and>
   list_all (\<lambda>w. length (matching_cities [berlin_city] w) \<le> 1)
     (matching_observations [berlin_weather, berlin_weather] berlin_shipment) \<and>
   length (matching_observations [berlin_weather, berlin_weather] berlin_shipment) = 2 \<and>
   length (result (preprocess_and_join [berlin_shipment] [berlin_city] [berlin_weather, berlin_weather])) = 2"
proof -
  have h: "list_all (\<lambda>w. length (matching_cities [berlin_city] w) \<le> 1)
     (matching_observations [berlin_weather, berlin_weather] berlin_shipment)"
    by code_simp
  have k: "length (matching_observations [berlin_weather, berlin_weather] berlin_shipment) = 2"
    by code_simp
  have c: "[berlin_city] \<noteq> []" by simp
  show ?thesis
    using h k duplicate_weather_fans_out [OF c h, of "[]" "[]"] by simp
qed

text \<open>
  C8, as stated, fails twice. The weather row for Berlin matches the Berlin shipment, its
  latitude differs from the catalog's, the left join keeps it without a city, and the
  join emits a fact row whose \<open>city_id\<close> is null. And the weather table with a row for
  Lima, which the catalog has under an id of 54 bits, and a row for Quito, which it does
  not have, gives the Lima shipment a fact row whose \<open>city_id\<close> is a double, one less
  than the catalog's id.
\<close>

theorem unmatched_city_counterexample:
  "map city_id (result (preprocess_and_join [berlin_shipment] [berlin_city_moved] [berlin_weather])) =
     [NaN] \<and>
   c_id lima_city = 9007199254740993 \<and>
   map city_id (result (preprocess_and_join [lima_shipment] [lima_city] [lima_weather, quito_weather])) =
     [FloatId 9007199254740992]"
  by code_simp

text \<open>
  C8, amended. The rows of the join's output are exactly these: for a catalog that is not
  empty, one row for each shipment, each weather observation that matches it and each
  catalog row that matches that observation on normalised name, latitude and longitude,
  with the shipment's and the observation's values and the id of that catalog row; and
  one row with a null \<open>city_id\<close> where no catalog row matches the observation. The id is
  the catalog's integer, as it is, when every weather observation of the input matches a
  catalog row; when one of them matches none, the column holds doubles and the id is the
  nearest double (the id itself when it has at most 53 bits).
\<close>

theorem city_id_null_or_catalog:
  "(r \<in> set (result (preprocess_and_join ss cs ws)) \<longleftrightarrow>
      cs \<noteq> [] \<and>
      (\<exists>s\<in>set ss. \<exists>w\<in>set (matching_observations ws s).
         (matching_cities cs w = [] \<and> r = fact_of NaN s w) \<or>
         (\<exists>c\<in>set (matching_cities cs w).
            r = fact_of (if some_unmatched cs ws then FloatId (float64_of_int (c_id c))
                         else IntId (c_id c)) s w))) \<and>
   city_id (fact_of cell s' w') = cell \<and>
   set (matching_cities cs w') \<subseteq> set cs"
proof -
  have "(\<exists>co\<in>set (city_options cs w). r = fact_of (city_id_cell cs ws co) s w) \<longleftrightarrow>
      (matching_cities cs w = [] \<and> r = fact_of NaN s w) \<or>
      (\<exists>c\<in>set (matching_cities cs w).
         r = fact_of (if some_unmatched cs ws then FloatId (float64_of_int (c_id c))
                      else IntId (c_id c)) s w)" for s w
    by (cases "matching_cities cs w") (auto simp: city_options_def city_id_cell_def)
  then have "r \<in> set (result (preprocess_and_join ss cs ws)) \<longleftrightarrow>
      cs \<noteq> [] \<and>
      (\<exists>s\<in>set ss. \<exists>w\<in>set (matching_observations ws s).
         (matching_cities cs w = [] \<and> r = fact_of NaN s w) \<or>
         (\<exists>c\<in>set (matching_cities cs w).
            r = fact_of (if some_unmatched cs ws then FloatId (float64_of_int (c_id c))
                         else IntId (c_id c)) s w))"
    by (simp add: result_rows)
  moreover have "city_id (fact_of cell s' w') = cell"
    by (simp add: fact_of_def)
  moreover have "set (matching_cities cs w') \<subseteq> set cs"
    by (simp add: matching_cities_def)
  ultimately show ?thesis by blast
qed

theorem city_id_null_or_catalog_witness:
  "fact_of (FloatId 9007199254740992) lima_shipment lima_weather
     \<in> set (result (preprocess_and_join [lima_shipment] [lima_city] [lima_weather, quito_weather])) \<and>
   (\<exists>s\<in>set [lima_shipment]. \<exists>w\<in>set (matching_observations [lima_weather, quito_weather] s).
      (matching_cities [lima_city] w = [] \<and>
       fact_of (FloatId 9007199254740992) lima_shipment lima_weather = fact_of NaN s w) \<or>
      (\<exists>c\<in>set (matching_cities [lima_city] w).
         fact_of (FloatId 9007199254740992) lima_shipment lima_weather =
           fact_of (if some_unmatched [lima_city] [lima_weather, quito_weather]
                    then FloatId (float64_of_int (c_id c)) else IntId (c_id c)) s w))"
proof -
  have h: "fact_of (FloatId 9007199254740992) lima_shipment lima_weather
     \<in> set (result (preprocess_and_join [lima_shipment] [lima_city] [lima_weather, quito_weather]))"
    by code_simp
  with city_id_null_or_catalog
         [of "fact_of (FloatId 9007199254740992) lima_shipment lima_weather"
           "[lima_shipment]" "[lima_city]" "[lima_weather, quito_weather]"]
  show ?thesis by blast
qed

text \<open>
  C9, as stated, fails: after the join of the end-to-end scenario the cities frame holds
  the name \<open>berlin\<close> where it held \<open>Berlin\<close>, the shipments frame has two more columns,
  and its column \<open>shipment_start_timestamp\<close> holds a \<open>Timestamp\<close> where it held a text.
\<close>

theorem inputs_mutated_counterexample:
  "cities_after (preprocess_and_join [berlin_shipment] [berlin_city] [berlin_weather]) \<noteq>
     [berlin_city] \<and>
   shipments_after (preprocess_and_join [berlin_shipment] [berlin_city] [berlin_weather]) \<noteq>
     [berlin_shipment] \<and>
   map s_shipment_start_timestamp
     (shipments_after (preprocess_and_join [berlin_shipment] [berlin_city] [berlin_weather])) \<noteq>
     map s_shipment_start_timestamp [berlin_shipment]"
  by code_simp

text \<open>
  C9, amended. When one of the three inputs is empty, the shipments and the cities frame
  are as they were. Otherwise the cities frame holds the same rows with each \<open>name\<close>
  replaced by its \<open>str.strip().str.lower()\<close> and the columns \<open>id\<close>, \<open>latitude\<close> and
  \<open>longitude\<close> as they were; and the shipments frame holds the same rows with each
  \<open>shipment_start_timestamp\<close> replaced by its \<open>pd.to_datetime\<close> (the \<open>Timestamp\<close> that a
  text denotes; a \<open>Timestamp\<close> stays the same), the columns \<open>id\<close>, \<open>start_location\<close>
  and \<open>consumed_fuel\<close> as they were, and two columns more: \<open>hourly_timestamp\<close>, the
  start timestamp floored to the hour, and \<open>city\<close>, the normalised \<open>start_location\<close>.
\<close>

theorem inputs_after_join:
  "cities_after (preprocess_and_join ss cs ws) =
     (if ss = [] \<or> cs = [] \<or> ws = [] then cs
      else map (\<lambda>c. c\<lparr>c_name := normalize (c_name c)\<rparr>) cs) \<and>
   shipments_after (preprocess_and_join ss cs ws) =
     (if ss = [] \<or> cs = [] \<or> ws = [] then ss
      else map (\<lambda>s. s\<lparr>s_shipment_start_timestamp := TimeStamp (stamp_of (s_shipment_start_timestamp s)),
                      s_hourly_timestamp := Some (floor_h (stamp_of (s_shipment_start_timestamp s))),
                      s_city := Some (normalize (s_start_location s))\<rparr>) ss) \<and>
   map c_id (cities_after (preprocess_and_join ss cs ws)) = map c_id cs \<and>
   map c_latitude (cities_after (preprocess_and_join ss cs ws)) = map c_latitude cs \<and>
   map c_longitude (cities_after (preprocess_and_join ss cs ws)) = map c_longitude cs \<and>
   map s_id (shipments_after (preprocess_and_join ss cs ws)) = map s_id ss \<and>
   map s_start_location (shipments_after (preprocess_and_join ss cs ws)) = map s_start_location ss \<and>
   map s_consumed_fuel (shipments_after (preprocess_and_join ss cs ws)) = map s_consumed_fuel ss \<and>
   map (\<lambda>s. stamp_of (s_shipment_start_timestamp s)) (shipments_after (preprocess_and_join ss cs ws)) =
     map (\<lambda>s. stamp_of (s_shipment_start_timestamp s)) ss"
  by (simp add: preprocess_and_join_def Let_def normalize_city_def key_shipment_def
        to_datetime_def comp_def)

text \<open>
  C10, as stated, fails: a catalog row with a latitude and no longitude lacks only one of
  the two coordinates, and the reader does not return it.
\<close>

theorem one_coordinate_counterexample:
  "c_latitude oslo_no_longitude \<noteq> None \<and>
   fetch_cities_from_db (Available [oslo_no_longitude]) = []"
  by code_simp

text \<open>
  C10, amended. The reader leaves a catalog row out of the locations it returns if and
  only if the row lacks its latitude or its longitude; a row that lacks only one of the
  two is left out.
\<close>

theorem catalog_reader_keeps_geocoded:
  "r \<in> set table \<Longrightarrow>
   (city_dict r \<notin> set (fetch_cities_from_db (Available table))) =
     (c_latitude r = None \<or> c_longitude r = None)"
  by (auto simp: fetch_cities_from_db_def city_dict_def)

theorem catalog_reader_keeps_geocoded_witness:
  "oslo_no_longitude \<in> set [oslo_no_longitude, berlin_city] \<and>
   c_latitude oslo_no_longitude \<noteq> None \<and>
   city_dict oslo_no_longitude \<notin>
     set (fetch_cities_from_db (Available [oslo_no_longitude, berlin_city])) \<and>
   fetch_cities_from_db (Available [oslo_no_longitude, berlin_city]) = [city_dict berlin_city]"
proof -
  have h: "oslo_no_longitude \<in> set [oslo_no_longitude, berlin_city]" by simp
  have l: "c_latitude oslo_no_longitude \<noteq> None \<and> c_longitude oslo_no_longitude = None"
    by (simp add: oslo_no_longitude_def)
  have f: "fetch_cities_from_db (Available [oslo_no_longitude, berlin_city]) = [city_dict berlin_city]"
    by code_simp
  show ?thesis
    using h l f catalog_reader_keeps_geocoded [OF h] by simp
qed

end
